theory Spec2Isabelle
  imports Complex_Main "HOL-Library.Multiset"
begin

section \<open>Skill gap analyzer (backend/app/services/skill_analyzer.py)\<close>

text \<open>
  A shallow embedding of the class \<open>SkillGapAnalyzer\<close>. Python exceptions are values of
  \<open>py_error\<close>, and a method that can raise returns \<open>py_error + 'a\<close>. Scores are Python
  floats in the source; they are modelled as real numbers, so the order comparisons of the
  source (\<open>>=\<close>, \<open>argmax\<close>) are exact and NaN does not occur.
\<close>

subsection \<open>Strings\<close>

text \<open>
  \<open>str.lower()\<close>, on the ASCII letters (a \<open>string\<close> is a list of bytes; bytes outside
  \<open>A\<close>..\<open>Z\<close> are left as they are).
\<close>

definition lower_char :: "char \<Rightarrow> char" where
  "lower_char c =
     (case map_of (zip ''ABCDEFGHIJKLMNOPQRSTUVWXYZ'' ''abcdefghijklmnopqrstuvwxyz'') c of
        None \<Rightarrow> c
      | Some d \<Rightarrow> d)"

definition lower :: "string \<Rightarrow> string" where
  "lower s = map lower_char s"

text \<open>Python's \<open>sub in s\<close> on strings: \<open>sub\<close> occurs in \<open>s\<close> as a contiguous block.\<close>

fun starts_with :: "string \<Rightarrow> string \<Rightarrow> bool" where
  "starts_with s [] = True"
| "starts_with [] (c # sub) = False"
| "starts_with (d # s) (c # sub) = (d = c \<and> starts_with s sub)"

fun str_in :: "string \<Rightarrow> string \<Rightarrow> bool" where
  "str_in sub [] = (sub = [])"
| "str_in sub (d # s) = (starts_with (d # s) sub \<or> str_in sub s)"

subsection \<open>Errors and library functions\<close>

datatype py_error = ValueError | IndexError | KeyError | OSError | JSONDecodeError

text \<open>
  The functions the analyzer imports from other packages are parameters of the model:
  \<open>cosine_similarity\<close> is one entry of the matrix that
  \<open>sklearn.metrics.pairwise.cosine_similarity\<close> returns (the entry for one row of each
  argument), and \<open>fuzz_ratio\<close> is \<open>fuzzywuzzy.fuzz.ratio\<close>, an integer score.
\<close>

record library =
  cosine_similarity :: "real list \<Rightarrow> real list \<Rightarrow> real"
  fuzz_ratio :: "string \<Rightarrow> string \<Rightarrow> int"

text \<open>
  \<open>np.argmax\<close> on a one-dimensional sequence: the first index of a greatest element;
  it raises ValueError on an empty sequence.
\<close>

fun argmax_from :: "real list \<Rightarrow> nat \<Rightarrow> nat \<Rightarrow> real \<Rightarrow> nat" where
  "argmax_from [] i best_i best = best_i"
| "argmax_from (x # xs) i best_i best =
     (if best < x then argmax_from xs (Suc i) i x else argmax_from xs (Suc i) best_i best)"

definition argmax :: "real list \<Rightarrow> py_error + nat" where
  "argmax xs = (case xs of [] \<Rightarrow> Inl ValueError | x # rest \<Rightarrow> Inr (argmax_from rest 1 0 x))"

subsection \<open>Data model\<close>

text \<open>One entry of a job's \<open>"skills"\<close> list in job_skill_mapping.json.\<close>

record skill_info =
  si_skill :: string
  si_task :: string
  is_hot_tech :: bool
  is_in_demand :: bool

text \<open>
  The value stored for one job profession. The analyzer reads \<open>"skills"\<close>,
  \<open>"hot_technologies"\<close> and \<open>"in_demand_skills"\<close> with \<open>.get(key, [])\<close>, so a missing
  key is the empty list.
\<close>

record job_requirements =
  skills :: "skill_info list"
  hot_technologies :: "string list"
  in_demand_skills :: "string list"
  tasks :: "string list"

datatype match_type = Semantic | Fuzzy

record skill_match =
  original_skill :: string
  matched_skill :: string
  confidence :: real
  match_kind :: match_type

text \<open>The fields of \<open>self\<close>. \<open>sbert_model\<close> is \<open>self.sbert_model.encode\<close> on one string.\<close>

record analyzer =
  similarity_threshold :: real
  sbert_model :: "string \<Rightarrow> real list"
  skill_embeddings :: "real list list"
  skill_list :: "string list"
  job_skill_mapping :: "string \<rightharpoonup> job_requirements"

subsection \<open>extract_and_match_skills\<close>

text \<open>
  The body of the loop over \<open>resume_skills\<close> for one candidate: \<open>Inr None\<close> when nothing
  is appended. Row \<open>i\<close> of \<open>similarities\<close> has one entry per row of
  \<open>self.skill_embeddings\<close>; \<open>self.skill_list[final_match_idx]\<close> raises IndexError when
  the index is past the end of the list.
\<close>

definition match_skill :: "library \<Rightarrow> analyzer \<Rightarrow> string \<Rightarrow> py_error + skill_match option" where
  "match_skill L self resume_skill =
     (let skill_similarities =
            map (cosine_similarity L (sbert_model self resume_skill)) (skill_embeddings self)
      in case argmax skill_similarities of
           Inl e \<Rightarrow> Inl e
         | Inr best_match_idx \<Rightarrow>
             (let best_similarity = skill_similarities ! best_match_idx;
                  fuzzy_scores =
                    map (\<lambda>skill. real_of_int (fuzz_ratio L (lower resume_skill) (lower skill)) / 100)
                      (skill_list self)
              in case argmax fuzzy_scores of
                   Inl e \<Rightarrow> Inl e
                 | Inr best_fuzzy_idx \<Rightarrow>
                     (let best_fuzzy_score = fuzzy_scores ! best_fuzzy_idx;
                          final_match_idx =
                            (if best_fuzzy_score \<le> best_similarity then best_match_idx
                             else best_fuzzy_idx);
                          final_score =
                            (if best_fuzzy_score \<le> best_similarity then best_similarity
                             else best_fuzzy_score);
                          mt = (if best_fuzzy_score \<le> best_similarity then Semantic else Fuzzy)
                      in if similarity_threshold self \<le> final_score then
                           (if final_match_idx < length (skill_list self) then
                              Inr (Some \<lparr>original_skill = resume_skill,
                                         matched_skill = skill_list self ! final_match_idx,
                                         confidence = final_score,
                                         match_kind = mt\<rparr>)
                            else Inl IndexError)
                         else Inr None)))"

fun match_loop ::
  "library \<Rightarrow> analyzer \<Rightarrow> string list \<Rightarrow> skill_match list \<Rightarrow> py_error + skill_match list" where
  "match_loop L self [] matched_skills = Inr matched_skills"
| "match_loop L self (resume_skill # rest) matched_skills =
     (case match_skill L self resume_skill of
        Inl e \<Rightarrow> Inl e
      | Inr None \<Rightarrow> match_loop L self rest matched_skills
      | Inr (Some m) \<Rightarrow> match_loop L self rest (matched_skills @ [m]))"

definition extract_and_match_skills ::
  "library \<Rightarrow> analyzer \<Rightarrow> string list \<Rightarrow> py_error + skill_match list" where
  "extract_and_match_skills L self resume_skills =
     (if resume_skills = [] then Inr [] else match_loop L self resume_skills [])"

subsection \<open>analyze_skill_gap\<close>

text \<open>
  \<open>get_job_required_skills\<close>: an unknown job gives the empty requirement record (the
  source also logs a warning, which is not modelled).
\<close>

definition get_job_required_skills :: "analyzer \<Rightarrow> string \<Rightarrow> job_requirements" where
  "get_job_required_skills self job_profession =
     (case job_skill_mapping self job_profession of
        None \<Rightarrow> \<lparr>skills = [], hot_technologies = [], in_demand_skills = [], tasks = []\<rparr>
      | Some reqs \<Rightarrow> reqs)"

text \<open>
  The list \<open>required_skills\<close> of \<open>analyze_skill_gap\<close>: the names of the job's entries,
  in their order, one per entry.
\<close>

definition required_skills :: "analyzer \<Rightarrow> string \<Rightarrow> string list" where
  "required_skills self job = map si_skill (skills (get_job_required_skills self job))"

text \<open>The loop that sorts the missing skills into the three importance lists.\<close>

fun classify_missing ::
  "string list \<Rightarrow> string list \<Rightarrow> string list \<Rightarrow>
   string list \<Rightarrow> string list \<Rightarrow> string list \<Rightarrow> string list \<times> string list \<times> string list" where
  "classify_missing hot demand [] critical important nice = (critical, important, nice)"
| "classify_missing hot demand (skill # rest) critical important nice =
     (if skill \<in> set hot \<and> skill \<in> set demand then
        classify_missing hot demand rest (critical @ [skill]) important nice
      else if skill \<in> set hot \<or> skill \<in> set demand then
        classify_missing hot demand rest critical (important @ [skill]) nice
      else classify_missing hot demand rest critical important (nice @ [skill]))"

subsection \<open>Learning path\<close>

record learning_item =
  lp_skill :: string
  lp_category :: string
  estimated_weeks :: nat
  prerequisites :: "string list"

text \<open>The dictionary \<open>skill_categories\<close> of \<open>_create_learning_path\<close>, in insertion order.\<close>

definition skill_categories_table :: "(string \<times> string list) list" where
  "skill_categories_table =
     [(''programming'', [''Python'', ''Java'', ''JavaScript'', ''C++'', ''R'']),
      (''data_science'', [''Machine Learning'', ''Deep Learning'', ''Statistics'', ''Data Analysis'']),
      (''web'', [''HTML'', ''CSS'', ''React'', ''Angular'', ''Node.js'']),
      (''database'', [''SQL'', ''MySQL'', ''PostgreSQL'', ''MongoDB'']),
      (''cloud'', [''AWS'', ''Azure'', ''Google Cloud'', ''Docker'', ''Kubernetes'']),
      (''tools'', [''Git'', ''Docker'', ''Jenkins'', ''Tableau''])]"

text \<open>
  The inner loop over \<open>skill_categories.items()\<close>: the first category one of whose
  keywords, lowered, occurs in the lowered skill; \<open>"other"\<close> when there is none.
\<close>

fun first_category :: "(string \<times> string list) list \<Rightarrow> string \<Rightarrow> string" where
  "first_category [] skill = ''other''"
| "first_category ((cat, cat_skills) # rest) skill =
     (if list_ex (\<lambda>cat_skill. str_in (lower cat_skill) (lower skill)) cat_skills then cat
      else first_category rest skill)"

definition learning_category :: "string \<Rightarrow> string" where
  "learning_category skill = first_category skill_categories_table skill"

text \<open>The loop that fills the dictionary \<open>categorized_skills\<close>.\<close>

fun group_skills :: "string list \<Rightarrow> (string \<rightharpoonup> string list) \<Rightarrow> (string \<rightharpoonup> string list)" where
  "group_skills [] categorized_skills = categorized_skills"
| "group_skills (skill # rest) categorized_skills =
     (let category = learning_category skill;
          sofar = (case categorized_skills category of None \<Rightarrow> [] | Some ss \<Rightarrow> ss)
      in group_skills rest (categorized_skills(category \<mapsto> sofar @ [skill])))"

definition estimate_learning_time :: "string \<Rightarrow> string \<Rightarrow> nat" where
  "estimate_learning_time skill category =
     (case map_of [(''programming'', 8), (''data_science'', 12), (''web'', 6), (''database'', 4),
                   (''cloud'', 6), (''tools'', 2), (''other'', 4)] category of
        None \<Rightarrow> 4
      | Some w \<Rightarrow> w)"

definition get_prerequisites :: "string \<Rightarrow> string \<Rightarrow> string list" where
  "get_prerequisites skill category =
     (case map_of [(''Machine Learning'', [''Python'', ''Statistics'', ''Mathematics'']),
                   (''Deep Learning'', [''Machine Learning'', ''Python'', ''TensorFlow'']),
                   (''React'', [''JavaScript'', ''HTML'', ''CSS'']),
                   (''Node.js'', [''JavaScript'']),
                   (''Docker'', [''Linux'', ''Command Line'']),
                   (''Kubernetes'', [''Docker'', ''Linux''])] skill of
        None \<Rightarrow> []
      | Some ps \<Rightarrow> ps)"

definition learning_order :: "string list" where
  "learning_order =
     [''programming'', ''database'', ''tools'', ''data_science'', ''web'', ''cloud'', ''other'']"

definition path_item :: "string \<Rightarrow> string \<Rightarrow> learning_item" where
  "path_item category skill =
     \<lparr>lp_skill = skill, lp_category = category,
      estimated_weeks = estimate_learning_time skill category,
      prerequisites = get_prerequisites skill category\<rparr>"

definition create_learning_path :: "string list \<Rightarrow> learning_item list" where
  "create_learning_path skills_in =
     (let categorized_skills = group_skills skills_in Map.empty
      in concat (map (\<lambda>category.
           case categorized_skills category of
             None \<Rightarrow> []
           | Some ss \<Rightarrow> map (path_item category) ss) learning_order))"

subsection \<open>Recommendations\<close>

record priority_item =
  po_skill :: string
  priority :: string
  reason :: string

record recommendations =
  priority_order :: "priority_item list"
  learning_path :: "learning_item list"
  estimated_time :: "(string \<times> nat) list"

definition generate_recommendations ::
  "string list \<Rightarrow> string list \<Rightarrow> string list \<Rightarrow> recommendations" where
  "generate_recommendations critical important nice_to_have =
     (let all_missing = critical @ important @ take 3 nice_to_have
      in \<lparr>priority_order =
             map (\<lambda>skill. \<lparr>po_skill = skill, priority = ''Critical'',
                            reason = ''High demand and trending''\<rparr>) critical
             @ map (\<lambda>skill. \<lparr>po_skill = skill, priority = ''Important'',
                              reason = ''Industry demand or trending''\<rparr>) important
             @ map (\<lambda>skill. \<lparr>po_skill = skill, priority = ''Nice-to-have'',
                              reason = ''Complementary skill''\<rparr>) (take 5 nice_to_have),
           learning_path = create_learning_path all_missing,
           estimated_time = []\<rparr>)"

subsection \<open>Technical areas\<close>

text \<open>The \<open>if\<close>/\<open>elif\<close> chain of \<open>_categorize_skills\<close>, as a table in the chain's order.\<close>

definition technical_areas :: "(string \<times> string list) list" where
  "technical_areas =
     [(''Programming Languages'', [''python'', ''java'', ''javascript'', ''c++'', ''r'', ''sql'']),
      (''Machine Learning/AI'',
         [''machine learning'', ''deep learning'', ''tensorflow'', ''scikit'', ''neural'']),
      (''Web Technologies'', [''html'', ''css'', ''react'', ''angular'', ''node'', ''express'']),
      (''Databases'', [''mysql'', ''postgresql'', ''mongodb'', ''database'', ''sql'']),
      (''Cloud & DevOps'', [''aws'', ''azure'', ''cloud'', ''docker'', ''kubernetes'']),
      (''Data Analysis'', [''tableau'', ''power bi'', ''excel'', ''analytics'', ''statistics''])]"

fun technical_area :: "(string \<times> string list) list \<Rightarrow> string \<Rightarrow> string" where
  "technical_area [] skill = ''Other''"
| "technical_area ((area, keywords) # rest) skill =
     (if list_ex (\<lambda>kw. str_in kw (lower skill)) keywords then area
      else technical_area rest skill)"

definition categorize_skills :: "string list \<Rightarrow> string list \<Rightarrow> (string \<times> string list) list" where
  "categorize_skills present missing =
     (let all_skills = present @ missing
      in filter (\<lambda>(k, v). v \<noteq> [])
           (map (\<lambda>k. (k, filter (\<lambda>skill. technical_area technical_areas skill = k) all_skills))
              (map fst technical_areas @ [''Other''])))"

subsection \<open>The analysis\<close>

record gap_result =
  target_job :: string
  proficiency_score :: real
  total_required_skills :: nat
  skills_present :: nat
  matched_skills :: "skill_match list"
  present_skills :: "string list"
  missing_skills :: "string list"
  critical_missing :: "string list"
  important_missing :: "string list"
  nice_to_have_missing :: "string list"
  missing_hot_technologies :: "string list"
  missing_in_demand :: "string list"
  recommended :: recommendations
  skill_categories :: "(string \<times> string list) list"

definition analyze_skill_gap ::
  "library \<Rightarrow> analyzer \<Rightarrow> string list \<Rightarrow> string \<Rightarrow> py_error + gap_result" where
  "analyze_skill_gap L self resume_skills job =
     (case extract_and_match_skills L self resume_skills of
        Inl e \<Rightarrow> Inl e
      | Inr matched \<Rightarrow>
          (let matched_skill_names = map matched_skill matched;
               job_requirements = get_job_required_skills self job;
               required = required_skills self job;
               hot = hot_technologies job_requirements;
               demand = in_demand_skills job_requirements;
               missing = filter (\<lambda>skill. skill \<notin> set matched_skill_names) required;
               present = filter (\<lambda>skill. skill \<in> set matched_skill_names) required;
               missing_hot_tech = filter (\<lambda>skill. skill \<notin> set matched_skill_names) hot;
               missing_demand = filter (\<lambda>skill. skill \<notin> set matched_skill_names) demand;
               total_required = length required;
               n_present = length present;
               score = (real n_present / real (max total_required 1)) * 100;
               tiers = classify_missing hot demand missing [] [] []
           in Inr \<lparr>target_job = job,
                   proficiency_score = score,
                   total_required_skills = total_required,
                   skills_present = n_present,
                   matched_skills = matched,
                   present_skills = present,
                   missing_skills = missing,
                   critical_missing = fst tiers,
                   important_missing = fst (snd tiers),
                   nice_to_have_missing = snd (snd tiers),
                   missing_hot_technologies = missing_hot_tech,
                   missing_in_demand = missing_demand,
                   recommended =
                     generate_recommendations (fst tiers) (fst (snd tiers)) (snd (snd tiers)),
                   skill_categories = categorize_skills present missing\<rparr>))"

subsection \<open>Loading\<close>

text \<open>
  The parsed content of skill_embeddings.json: an object whose keys \<open>"skills"\<close> and
  \<open>"embeddings"\<close> may be absent (the subscript then raises KeyError). A file that cannot
  be opened or parsed is the error that \<open>open\<close> or \<open>json.load\<close> raised.
\<close>

record embedding_data =
  ed_skills :: "string list option"
  ed_embeddings :: "real list list option"

text \<open>
  \<open>np.array\<close> on a list of rows: rows of different lengths raise ValueError (numpy 1.24
  and later).
\<close>

definition np_array :: "real list list \<Rightarrow> py_error + real list list" where
  "np_array rows =
     (if list_all (\<lambda>r. length r = length (hd rows)) rows then Inr rows else Inl ValueError)"

definition load_skill_data ::
  "analyzer \<Rightarrow> py_error + embedding_data \<Rightarrow> py_error + (string \<rightharpoonup> job_requirements) \<Rightarrow>
   py_error + analyzer" where
  "load_skill_data self embeddings_file mapping_file =
     (case embeddings_file of
        Inl e \<Rightarrow> Inl e
      | Inr data \<Rightarrow>
          (case ed_skills data of
             None \<Rightarrow> Inl KeyError
           | Some names \<Rightarrow>
               (case ed_embeddings data of
                  None \<Rightarrow> Inl KeyError
                | Some rows \<Rightarrow>
                    (case np_array rows of
                       Inl e \<Rightarrow> Inl e
                     | Inr arr \<Rightarrow>
                         (case mapping_file of
                            Inl e \<Rightarrow> Inl e
                          | Inr mapping \<Rightarrow>
                              Inr (self\<lparr>skill_list := names, skill_embeddings := arr,
                                        job_skill_mapping := mapping\<rparr>))))))"

text \<open>
  \<open>__init__\<close>: \<open>None\<close> for the threshold is the call that leaves the default of the
  signature, \<open>similarity_threshold: float = 0.7\<close>.
\<close>

definition init ::
  "py_error + embedding_data \<Rightarrow> py_error + (string \<rightharpoonup> job_requirements) \<Rightarrow>
   (string \<Rightarrow> real list) \<Rightarrow> real option \<Rightarrow> py_error + analyzer" where
  "init embeddings_file mapping_file model threshold =
     load_skill_data
       \<lparr>similarity_threshold = (case threshold of None \<Rightarrow> 0.7 | Some t \<Rightarrow> t),
        sbert_model = model,
        skill_embeddings = [],
        skill_list = [],
        job_skill_mapping = Map.empty\<rparr>
       embeddings_file mapping_file"

subsection \<open>The job table (create_job_skill_mapping, data_preprocessor.py)\<close>

text \<open>
  One row of the skills data frame; \<open>r_hot\<close> and \<open>r_demand\<close> are the columns
  \<open>Hot Technology\<close> and \<open>In Demand\<close>, which hold \<open>Y\<close> or \<open>N\<close>.
\<close>

record skills_row =
  r_job :: string
  r_skill :: string
  r_task :: string
  r_hot :: string
  r_demand :: string

definition add_row ::
  "skills_row \<Rightarrow> (string \<rightharpoonup> job_requirements) \<Rightarrow> (string \<rightharpoonup> job_requirements)" where
  "add_row row job_skills =
     (let hot_tech = (r_hot row = ''Y'');
          in_demand = (r_demand row = ''Y'');
          e0 = (case job_skills (r_job row) of
                  None \<Rightarrow> \<lparr>skills = [], hot_technologies = [], in_demand_skills = [], tasks = []\<rparr>
                | Some e \<Rightarrow> e);
          e1 = e0\<lparr>skills := skills e0 @
                  [\<lparr>si_skill = r_skill row, si_task = r_task row,
                    is_hot_tech = hot_tech, is_in_demand = in_demand\<rparr>]\<rparr>;
          e2 = (if r_task row \<noteq> [] \<and> r_task row \<notin> set (tasks e1)
                then e1\<lparr>tasks := tasks e1 @ [r_task row]\<rparr> else e1);
          e3 = (if hot_tech then e2\<lparr>hot_technologies := hot_technologies e2 @ [r_skill row]\<rparr>
                else e2);
          e4 = (if in_demand then e3\<lparr>in_demand_skills := in_demand_skills e3 @ [r_skill row]\<rparr>
                else e3)
      in job_skills(r_job row \<mapsto> e4))"

definition create_job_skill_mapping :: "skills_row list \<Rightarrow> (string \<rightharpoonup> job_requirements)" where
  "create_job_skill_mapping rows = fold add_row rows Map.empty"

subsection \<open>Notions used to state the properties\<close>

text \<open>
  The best semantic score and the best lexical score of a candidate over the vocabulary:
  the greatest cosine similarity between the candidate's embedding and a stored embedding,
  and the greatest ratio (as a fraction of 100) between the lowered candidate and a lowered
  vocabulary name.
\<close>

definition semantic_score :: "library \<Rightarrow> analyzer \<Rightarrow> string \<Rightarrow> real" where
  "semantic_score L self c =
     Max (set (map (cosine_similarity L (sbert_model self c)) (skill_embeddings self)))"

definition lexical_score :: "library \<Rightarrow> analyzer \<Rightarrow> string \<Rightarrow> real" where
  "lexical_score L self c =
     Max (set (map (\<lambda>skill. real_of_int (fuzz_ratio L (lower c) (lower skill)) / 100)
                 (skill_list self)))"

text \<open>
  What an emitted match records about its candidate: the greater of the two scores as
  confidence, the method that gave it (semantic on a tie), and a vocabulary name that
  attains this score under that method.
\<close>

definition emitted_ok :: "library \<Rightarrow> analyzer \<Rightarrow> skill_match \<Rightarrow> bool" where
  "emitted_ok L self m =
     (confidence m =
        max (semantic_score L self (original_skill m)) (lexical_score L self (original_skill m)) \<and>
      match_kind m =
        (if lexical_score L self (original_skill m) \<le> semantic_score L self (original_skill m)
         then Semantic else Fuzzy) \<and>
      (\<exists>j<length (skill_list self).
         matched_skill m = skill_list self ! j \<and>
         (if match_kind m = Semantic
          then cosine_similarity L (sbert_model self (original_skill m)) (skill_embeddings self ! j) =
                 confidence m
          else real_of_int (fuzz_ratio L (lower (original_skill m)) (lower (skill_list self ! j))) / 100 =
                 confidence m)))"

text \<open>
  A loaded vocabulary the matcher can scan: at least one skill, and one embedding per
  skill name.
\<close>

definition vocabulary_ok :: "analyzer \<Rightarrow> bool" where
  "vocabulary_ok self =
     (skill_list self \<noteq> [] \<and> length (skill_embeddings self) = length (skill_list self))"

text \<open>
  The flags of a skill in a job's entries: some entry of that name is flagged. The lists
  \<open>hot_technologies\<close> and \<open>in_demand_skills\<close> of a job agree with the flags of its entries
  when they list the flagged entries' names in order, which is how
  \<open>create_job_skill_mapping\<close> fills them.
\<close>

definition hot_flag :: "job_requirements \<Rightarrow> string \<Rightarrow> bool" where
  "hot_flag reqs s = list_ex (\<lambda>e. si_skill e = s \<and> is_hot_tech e) (skills reqs)"

definition demand_flag :: "job_requirements \<Rightarrow> string \<Rightarrow> bool" where
  "demand_flag reqs s = list_ex (\<lambda>e. si_skill e = s \<and> is_in_demand e) (skills reqs)"

definition job_consistent :: "job_requirements \<Rightarrow> bool" where
  "job_consistent reqs =
     (hot_technologies reqs = map si_skill (filter is_hot_tech (skills reqs)) \<and>
      in_demand_skills reqs = map si_skill (filter is_in_demand (skills reqs)))"

subsection \<open>An example instance\<close>

text \<open>
  A small vocabulary with unit embeddings, a library whose cosine similarity is the dot
  product (the cosine, on unit vectors) and whose ratio knows one misspelling, and a job
  table built from rows in which \<open>Python\<close> occurs twice.
\<close>

definition example_library :: library where
  "example_library =
     \<lparr>cosine_similarity = (\<lambda>u v. sum_list (map2 (*) u v)),
      fuzz_ratio = (\<lambda>s t. if s = t then 100
                           else if s = ''pyhton'' \<and> t = ''python'' then 83 else 0)\<rparr>"

definition example_encode :: "string \<Rightarrow> real list" where
  "example_encode s =
     (if lower s = ''python'' then [1, 0, 0]
      else if lower s = ''sql'' then [0, 1, 0]
      else if lower s = ''machine learning'' then [0, 0, 1]
      else [0, 0, 0])"

definition example_rows :: "skills_row list" where
  "example_rows =
     [\<lparr>r_job = ''Dev'', r_skill = ''Python'', r_task = ''Scripting'', r_hot = ''Y'', r_demand = ''Y''\<rparr>,
      \<lparr>r_job = ''Dev'', r_skill = ''SQL'', r_task = ''Queries'', r_hot = ''N'', r_demand = ''Y''\<rparr>,
      \<lparr>r_job = ''Dev'', r_skill = ''Python'', r_task = ''Scripting'', r_hot = ''Y'', r_demand = ''Y''\<rparr>,
      \<lparr>r_job = ''Dev'', r_skill = ''Machine Learning'', r_task = [], r_hot = ''Y'', r_demand = ''Y''\<rparr>,
      \<lparr>r_job = ''Dev'', r_skill = ''Docker'', r_task = [], r_hot = ''Y'', r_demand = ''N''\<rparr>,
      \<lparr>r_job = ''Dev'', r_skill = ''Git'', r_task = [], r_hot = ''N'', r_demand = ''N''\<rparr>,
      \<lparr>r_job = ''Dev'', r_skill = ''Excel'', r_task = [], r_hot = ''N'', r_demand = ''N''\<rparr>,
      \<lparr>r_job = ''Dev'', r_skill = ''Tableau'', r_task = [], r_hot = ''N'', r_demand = ''N''\<rparr>,
      \<lparr>r_job = ''Dev'', r_skill = ''Jira'', r_task = [], r_hot = ''N'', r_demand = ''N''\<rparr>]"

definition example_analyzer :: analyzer where
  "example_analyzer =
     \<lparr>similarity_threshold = 0.7,
      sbert_model = example_encode,
      skill_embeddings = [[1, 0, 0], [0, 1, 0], [0, 0, 1]],
      skill_list = [''Python'', ''SQL'', ''Machine Learning''],
      job_skill_mapping = create_job_skill_mapping example_rows\<rparr>"

text \<open>The value the analysis returns for this instance, proved below.\<close>

definition example_result :: gap_result where
  "example_result =
     \<lparr>target_job = ''Dev'', proficiency_score = 200 / 9,
      total_required_skills = 9, skills_present = 2,
      matched_skills =
        [\<lparr>original_skill = ''python'', matched_skill = ''Python'',
          confidence = 1, match_kind = Semantic\<rparr>,
         \<lparr>original_skill = ''pyhton'', matched_skill = ''Python'',
          confidence = 83 / 100, match_kind = Fuzzy\<rparr>],
      present_skills = [''Python'', ''Python''],
      missing_skills =
        [''SQL'', ''Machine Learning'', ''Docker'', ''Git'', ''Excel'', ''Tableau'', ''Jira''],
      critical_missing = [''Machine Learning''],
      important_missing = [''SQL'', ''Docker''],
      nice_to_have_missing = [''Git'', ''Excel'', ''Tableau'', ''Jira''],
      missing_hot_technologies = [''Machine Learning'', ''Docker''],
      missing_in_demand = [''SQL'', ''Machine Learning''],
      recommended =
        \<lparr>priority_order =
           [\<lparr>po_skill = ''Machine Learning'', priority = ''Critical'',
             reason = ''High demand and trending''\<rparr>,
            \<lparr>po_skill = ''SQL'', priority = ''Important'',
             reason = ''Industry demand or trending''\<rparr>,
            \<lparr>po_skill = ''Docker'', priority = ''Important'',
             reason = ''Industry demand or trending''\<rparr>,
            \<lparr>po_skill = ''Git'', priority = ''Nice-to-have'',
             reason = ''Complementary skill''\<rparr>,
            \<lparr>po_skill = ''Excel'', priority = ''Nice-to-have'',
             reason = ''Complementary skill''\<rparr>,
            \<lparr>po_skill = ''Tableau'', priority = ''Nice-to-have'',
             reason = ''Complementary skill''\<rparr>,
            \<lparr>po_skill = ''Jira'', priority = ''Nice-to-have'',
             reason = ''Complementary skill''\<rparr>],
         learning_path =
           [\<lparr>lp_skill = ''Machine Learning'', lp_category = ''programming'',
             estimated_weeks = 8,
             prerequisites = [''Python'', ''Statistics'', ''Mathematics'']\<rparr>,
            \<lparr>lp_skill = ''Docker'', lp_category = ''programming'',
             estimated_weeks = 8, prerequisites = [''Linux'', ''Command Line'']\<rparr>,
            \<lparr>lp_skill = ''SQL'', lp_category = ''database'',
             estimated_weeks = 4, prerequisites = []\<rparr>,
            \<lparr>lp_skill = ''Git'', lp_category = ''tools'',
             estimated_weeks = 2, prerequisites = []\<rparr>,
            \<lparr>lp_skill = ''Tableau'', lp_category = ''tools'',
             estimated_weeks = 2, prerequisites = []\<rparr>,
            \<lparr>lp_skill = ''Excel'', lp_category = ''other'',
             estimated_weeks = 4, prerequisites = []\<rparr>],
         estimated_time = []\<rparr>,
      skill_categories =
        [(''Programming Languages'',
          [''Python'', ''Python'', ''SQL'', ''Machine Learning'', ''Docker'', ''Jira'']),
         (''Data Analysis'', [''Excel'', ''Tableau'']),
         (''Other'', [''Git''])]\<rparr>"

section \<open>Properties\<close>

subsection \<open>argmax\<close>

lemma argmax_from_inv:
  "i = length pre \<Longrightarrow> best_i < length pre \<Longrightarrow> pre ! best_i = best \<Longrightarrow>
   \<forall>x\<in>set pre. x \<le> best \<Longrightarrow>
   argmax_from xs i best_i best < length (pre @ xs) \<and>
   (\<forall>x\<in>set (pre @ xs). x \<le> (pre @ xs) ! argmax_from xs i best_i best)"
proof (induction xs arbitrary: pre i best_i best)
  case Nil
  then show ?case by simp
next
  case (Cons x xs)
  show ?case
  proof (cases "best < x")
    case True
    have "argmax_from xs (Suc i) i x < length ((pre @ [x]) @ xs) \<and>
      (\<forall>y\<in>set ((pre @ [x]) @ xs). y \<le> ((pre @ [x]) @ xs) ! argmax_from xs (Suc i) i x)"
      using Cons.prems True by (intro Cons.IH) (auto simp: nth_append)
    with True show ?thesis by simp
  next
    case False
    have "argmax_from xs (Suc i) best_i best < length ((pre @ [x]) @ xs) \<and>
      (\<forall>y\<in>set ((pre @ [x]) @ xs). y \<le> ((pre @ [x]) @ xs) ! argmax_from xs (Suc i) best_i best)"
      using Cons.prems False by (intro Cons.IH) (auto simp: nth_append)
    with False show ?thesis by simp
  qed
qed

lemma argmax_Inr:
  assumes "xs \<noteq> []"
  shows "\<exists>i. argmax xs = Inr i \<and> i < length xs \<and> xs ! i = Max (set xs)"
proof -
  from assms obtain x rest where xs: "xs = x # rest" by (cases xs) auto
  have *: "argmax_from rest (Suc 0) 0 x < length ([x] @ rest) \<and>
      (\<forall>y\<in>set ([x] @ rest). y \<le> ([x] @ rest) ! argmax_from rest (Suc 0) 0 x)"
    by (intro argmax_from_inv) auto
  let ?i = "argmax_from rest (Suc 0) 0 x"
  have lt: "?i < length xs" and ge: "\<forall>y\<in>set xs. y \<le> xs ! ?i"
    using * by (simp_all add: xs)
  have "Max (set xs) = xs ! ?i"
    by (rule Max_eqI) (use lt ge in auto)
  then show ?thesis using lt by (simp add: xs argmax_def)
qed

subsection \<open>The matcher on a loaded vocabulary\<close>

lemma match_skill_spec:
  assumes ok: "vocabulary_ok self"
  shows "\<exists>j<length (skill_list self).
     match_skill L self c =
       (if similarity_threshold self \<le> max (semantic_score L self c) (lexical_score L self c)
        then Inr (Some \<lparr>original_skill = c, matched_skill = skill_list self ! j,
                confidence = max (semantic_score L self c) (lexical_score L self c),
                match_kind = (if lexical_score L self c \<le> semantic_score L self c
                              then Semantic else Fuzzy)\<rparr>)
        else Inr None) \<and>
     (if lexical_score L self c \<le> semantic_score L self c
      then cosine_similarity L (sbert_model self c) (skill_embeddings self ! j) =
             semantic_score L self c
      else real_of_int (fuzz_ratio L (lower c) (lower (skill_list self ! j))) / 100 =
             lexical_score L self c)"
proof -
  let ?sims = "map (cosine_similarity L (sbert_model self c)) (skill_embeddings self)"
  let ?fz = "map (\<lambda>skill. real_of_int (fuzz_ratio L (lower c) (lower skill)) / 100) (skill_list self)"
  from ok have ne: "skill_list self \<noteq> []" and len: "length (skill_embeddings self) = length (skill_list self)"
    by (simp_all add: vocabulary_ok_def)
  from ne len have "?sims \<noteq> []" by auto
  from argmax_Inr[OF this] obtain i1 where
    a1: "argmax ?sims = Inr i1" and l1: "i1 < length (skill_list self)"
    and m1: "?sims ! i1 = semantic_score L self c"
    using len by (auto simp: semantic_score_def)
  from ne have "?fz \<noteq> []" by auto
  from argmax_Inr[OF this] obtain i2 where
    a2: "argmax ?fz = Inr i2" and l2: "i2 < length (skill_list self)"
    and m2: "?fz ! i2 = lexical_score L self c"
    by (auto simp: lexical_score_def)
  have c1: "cosine_similarity L (sbert_model self c) (skill_embeddings self ! i1) = semantic_score L self c"
    using m1 l1 len by simp
  have c2: "real_of_int (fuzz_ratio L (lower c) (lower (skill_list self ! i2))) / 100 = lexical_score L self c"
    using m2 l2 by simp
  show ?thesis
  proof (cases "lexical_score L self c \<le> semantic_score L self c")
    case True
    then have "match_skill L self c =
       (if similarity_threshold self \<le> max (semantic_score L self c) (lexical_score L self c)
        then Inr (Some \<lparr>original_skill = c, matched_skill = skill_list self ! i1,
                confidence = max (semantic_score L self c) (lexical_score L self c),
                match_kind = Semantic\<rparr>)
        else Inr None)"
      using l1 by (simp only: match_skill_def Let_def a1 a2 sum.case m1 m2) (simp add: max_def)
    with True c1 l1 show ?thesis by auto
  next
    case False
    then have "match_skill L self c =
       (if similarity_threshold self \<le> max (semantic_score L self c) (lexical_score L self c)
        then Inr (Some \<lparr>original_skill = c, matched_skill = skill_list self ! i2,
                confidence = max (semantic_score L self c) (lexical_score L self c),
                match_kind = Fuzzy\<rparr>)
        else Inr None)"
      using l2 by (simp only: match_skill_def Let_def a1 a2 sum.case m1 m2) (simp add: max_def)
    with False c2 l2 show ?thesis by auto
  qed
qed

lemma match_skill_cases:
  assumes ok: "vocabulary_ok self"
  shows "(\<not> similarity_threshold self \<le> max (semantic_score L self c) (lexical_score L self c) \<and>
          match_skill L self c = Inr None) \<or>
         (similarity_threshold self \<le> max (semantic_score L self c) (lexical_score L self c) \<and>
          (\<exists>m. match_skill L self c = Inr (Some m) \<and> original_skill m = c \<and>
               similarity_threshold self \<le> confidence m \<and> emitted_ok L self m))"
proof -
  from match_skill_spec[OF ok, of L c] obtain j where
    j: "j < length (skill_list self)" and
    eq: "match_skill L self c =
       (if similarity_threshold self \<le> max (semantic_score L self c) (lexical_score L self c)
        then Inr (Some \<lparr>original_skill = c, matched_skill = skill_list self ! j,
                confidence = max (semantic_score L self c) (lexical_score L self c),
                match_kind = (if lexical_score L self c \<le> semantic_score L self c
                              then Semantic else Fuzzy)\<rparr>)
        else Inr None)" and
    att: "(if lexical_score L self c \<le> semantic_score L self c
      then cosine_similarity L (sbert_model self c) (skill_embeddings self ! j) =
             semantic_score L self c
      else real_of_int (fuzz_ratio L (lower c) (lower (skill_list self ! j))) / 100 =
             lexical_score L self c)"
    by blast
  show ?thesis
  proof (cases "similarity_threshold self \<le> max (semantic_score L self c) (lexical_score L self c)")
    case False
    with eq show ?thesis by simp
  next
    case True
    let ?m = "\<lparr>original_skill = c, matched_skill = skill_list self ! j,
                confidence = max (semantic_score L self c) (lexical_score L self c),
                match_kind = (if lexical_score L self c \<le> semantic_score L self c
                              then Semantic else Fuzzy)\<rparr>"
    have "emitted_ok L self ?m"
      unfolding emitted_ok_def using j att by (auto simp: max_def)
    moreover have "match_skill L self c = Inr (Some ?m)" using eq True by simp
    ultimately show ?thesis using True by auto
  qed
qed

lemma match_loop_spec:
  assumes ok: "vocabulary_ok self"
  shows "\<exists>ms. match_loop L self rs acc = Inr (acc @ ms) \<and>
      map original_skill ms =
        filter (\<lambda>c. similarity_threshold self \<le>
                     max (semantic_score L self c) (lexical_score L self c)) rs \<and>
      (\<forall>m\<in>set ms. similarity_threshold self \<le> confidence m \<and> emitted_ok L self m)"
proof (induction rs arbitrary: acc)
  case Nil
  show ?case by simp
next
  case (Cons c rs)
  from match_skill_cases[OF ok, of L c] show ?case
  proof (elim disjE conjE exE)
    assume no: "\<not> similarity_threshold self \<le> max (semantic_score L self c) (lexical_score L self c)"
      and eq: "match_skill L self c = Inr None"
    from Cons.IH[of acc] obtain ms where
      "match_loop L self rs acc = Inr (acc @ ms)"
      "map original_skill ms =
        filter (\<lambda>c. similarity_threshold self \<le>
                     max (semantic_score L self c) (lexical_score L self c)) rs"
      "\<forall>m\<in>set ms. similarity_threshold self \<le> confidence m \<and> emitted_ok L self m"
      by blast
    with no eq show ?thesis by auto
  next
    fix m
    assume yes: "similarity_threshold self \<le> max (semantic_score L self c) (lexical_score L self c)"
      and eq: "match_skill L self c = Inr (Some m)"
      and m: "original_skill m = c" "similarity_threshold self \<le> confidence m" "emitted_ok L self m"
    from Cons.IH[of "acc @ [m]"] obtain ms where
      "match_loop L self rs (acc @ [m]) = Inr ((acc @ [m]) @ ms)"
      "map original_skill ms =
        filter (\<lambda>c. similarity_threshold self \<le>
                     max (semantic_score L self c) (lexical_score L self c)) rs"
      "\<forall>m\<in>set ms. similarity_threshold self \<le> confidence m \<and> emitted_ok L self m"
      by blast
    with yes eq m show ?thesis
      by (intro exI[of _ "m # ms"]) auto
  qed
qed

lemma extract_and_match_spec:
  assumes ok: "vocabulary_ok self"
  shows "\<exists>ms. extract_and_match_skills L self rs = Inr ms \<and>
      map original_skill ms =
        filter (\<lambda>c. similarity_threshold self \<le>
                     max (semantic_score L self c) (lexical_score L self c)) rs \<and>
      (\<forall>m\<in>set ms. similarity_threshold self \<le> confidence m \<and> emitted_ok L self m)"
proof (cases "rs = []")
  case True
  then show ?thesis by (simp add: extract_and_match_skills_def)
next
  case False
  with match_loop_spec[OF ok, of L rs "[]"] show ?thesis
    by (simp add: extract_and_match_skills_def)
qed

lemma load_keeps_threshold:
  "load_skill_data self ef mf = Inr a \<Longrightarrow> similarity_threshold a = similarity_threshold self"
  by (auto simp: load_skill_data_def split: sum.splits option.splits)

lemma init_default_threshold:
  "init ef mf model None = Inr a \<Longrightarrow> similarity_threshold a = 7 / 10"
  by (auto simp: init_def dest!: load_keeps_threshold)

subsection \<open>The fields of an analysis result\<close>

lemma classify_missing_filter:
  "classify_missing hot demand ms c i n =
     (c @ filter (\<lambda>s. s \<in> set hot \<and> s \<in> set demand) ms,
      i @ filter (\<lambda>s. \<not> (s \<in> set hot \<and> s \<in> set demand) \<and> (s \<in> set hot \<or> s \<in> set demand)) ms,
      n @ filter (\<lambda>s. s \<notin> set hot \<and> s \<notin> set demand) ms)"
  by (induction ms arbitrary: c i n) auto

lemma analyze_fields:
  assumes "analyze_skill_gap L self rs job = Inr r"
  shows "extract_and_match_skills L self rs = Inr (matched_skills r)"
    and "present_skills r = filter (\<lambda>s. s \<in> matched_skill ` set (matched_skills r))
        (required_skills self job)"
    and "missing_skills r = filter (\<lambda>s. s \<notin> matched_skill ` set (matched_skills r))
        (required_skills self job)"
    and "total_required_skills r = length (required_skills self job)"
    and "skills_present r = length (present_skills r)"
    and "proficiency_score r =
       real (length (present_skills r)) / real (max (length (required_skills self job)) 1) * 100"
    and "critical_missing r = fst (classify_missing (hot_technologies (get_job_required_skills self job))
         (in_demand_skills (get_job_required_skills self job)) (missing_skills r) [] [] [])"
    and "important_missing r = fst (snd (classify_missing (hot_technologies (get_job_required_skills self job))
         (in_demand_skills (get_job_required_skills self job)) (missing_skills r) [] [] []))"
    and "nice_to_have_missing r = snd (snd (classify_missing (hot_technologies (get_job_required_skills self job))
         (in_demand_skills (get_job_required_skills self job)) (missing_skills r) [] [] []))"
    and "recommended r = generate_recommendations (critical_missing r) (important_missing r) (nice_to_have_missing r)"
  using assms
  by (auto simp: analyze_skill_gap_def Let_def split: sum.splits)

lemma percent_bounds:
  fixes a b :: real
  assumes "0 \<le> a" "a \<le> b" "0 < b"
  shows "0 \<le> a / b * 100" and "a / b * 100 \<le> 100"
proof -
  show "0 \<le> a / b * 100" using assms by simp
  have "a / b \<le> 1" using assms by (simp add: pos_divide_le_eq)
  then have "a / b * 100 \<le> 1 * 100" by (rule mult_right_mono) simp
  then show "a / b * 100 \<le> 100" by (simp del: times_divide_eq_left)
qed

subsection \<open>The example instance, evaluated\<close>

lemma example_mapping_Dev:
  "create_job_skill_mapping example_rows ''Dev'' =
     Some \<lparr>skills =
       [\<lparr>si_skill = ''Python'', si_task = ''Scripting'', is_hot_tech = True, is_in_demand = True\<rparr>,
        \<lparr>si_skill = ''SQL'', si_task = ''Queries'', is_hot_tech = False, is_in_demand = True\<rparr>,
        \<lparr>si_skill = ''Python'', si_task = ''Scripting'', is_hot_tech = True, is_in_demand = True\<rparr>,
        \<lparr>si_skill = ''Machine Learning'', si_task = [], is_hot_tech = True, is_in_demand = True\<rparr>,
        \<lparr>si_skill = ''Docker'', si_task = [], is_hot_tech = True, is_in_demand = False\<rparr>,
        \<lparr>si_skill = ''Git'', si_task = [], is_hot_tech = False, is_in_demand = False\<rparr>,
        \<lparr>si_skill = ''Excel'', si_task = [], is_hot_tech = False, is_in_demand = False\<rparr>,
        \<lparr>si_skill = ''Tableau'', si_task = [], is_hot_tech = False, is_in_demand = False\<rparr>,
        \<lparr>si_skill = ''Jira'', si_task = [], is_hot_tech = False, is_in_demand = False\<rparr>],
       hot_technologies = [''Python'', ''Python'', ''Machine Learning'', ''Docker''],
       in_demand_skills = [''Python'', ''SQL'', ''Python'', ''Machine Learning''],
       tasks = [''Scripting'', ''Queries'']\<rparr>"
  by (simp add: create_job_skill_mapping_def example_rows_def add_row_def Let_def)


lemma example_fields:
  "job_skill_mapping example_analyzer = create_job_skill_mapping example_rows"
  "skill_list example_analyzer = [''Python'', ''SQL'', ''Machine Learning'']"
  "skill_embeddings example_analyzer = [[1, 0, 0], [0, 1, 0], [0, 0, 1]]"
  "similarity_threshold example_analyzer = 7 / 10"
  by (simp_all add: example_analyzer_def)

lemma example_vocabulary_ok: "vocabulary_ok example_analyzer"
  by (simp add: vocabulary_ok_def example_fields)

lemma lower_examples:
  "lower ''python'' = ''python''" "lower ''pyhton'' = ''pyhton''" "lower ''cobol'' = ''cobol''"
  "lower ''Python'' = ''python''" "lower ''SQL'' = ''sql''"
  "lower ''Machine Learning'' = ''machine learning''"
  by (simp_all add: lower_def lower_char_def)

lemma example_match_python:
  "match_skill example_library example_analyzer ''python'' =
     Inr (Some \<lparr>original_skill = ''python'', matched_skill = ''Python'', confidence = 1,
                match_kind = Semantic\<rparr>)"
  by (simp add: match_skill_def example_library_def example_analyzer_def example_encode_def
       lower_examples argmax_def Let_def)

lemma example_match_pyhton:
  "match_skill example_library example_analyzer ''pyhton'' =
     Inr (Some \<lparr>original_skill = ''pyhton'', matched_skill = ''Python'', confidence = 83 / 100,
                match_kind = Fuzzy\<rparr>)"
  by (simp add: match_skill_def example_library_def example_analyzer_def example_encode_def
       lower_examples argmax_def Let_def)

lemma example_match_cobol:
  "match_skill example_library example_analyzer ''cobol'' = Inr None"
  by (simp add: match_skill_def example_library_def example_analyzer_def example_encode_def
       lower_examples argmax_def Let_def)

lemma example_matches:
  "extract_and_match_skills example_library example_analyzer [''python'', ''pyhton'', ''cobol''] =
     Inr [\<lparr>original_skill = ''python'', matched_skill = ''Python'', confidence = 1,
           match_kind = Semantic\<rparr>,
          \<lparr>original_skill = ''pyhton'', matched_skill = ''Python'', confidence = 83 / 100,
           match_kind = Fuzzy\<rparr>]"
  by (simp add: extract_and_match_skills_def example_match_python example_match_pyhton
        example_match_cobol)

lemma example_path:
  "create_learning_path [''Machine Learning'', ''SQL'', ''Docker'', ''Git'', ''Excel'', ''Tableau''] =
    [\<lparr>lp_skill = ''Machine Learning'', lp_category = ''programming'', estimated_weeks = 8,
      prerequisites = [''Python'', ''Statistics'', ''Mathematics'']\<rparr>,
     \<lparr>lp_skill = ''Docker'', lp_category = ''programming'', estimated_weeks = 8,
      prerequisites = [''Linux'', ''Command Line'']\<rparr>,
     \<lparr>lp_skill = ''SQL'', lp_category = ''database'', estimated_weeks = 4, prerequisites = []\<rparr>,
     \<lparr>lp_skill = ''Git'', lp_category = ''tools'', estimated_weeks = 2, prerequisites = []\<rparr>,
     \<lparr>lp_skill = ''Tableau'', lp_category = ''tools'', estimated_weeks = 2, prerequisites = []\<rparr>,
     \<lparr>lp_skill = ''Excel'', lp_category = ''other'', estimated_weeks = 4, prerequisites = []\<rparr>]"
  by code_simp

lemma example_areas:
  "categorize_skills [''Python'', ''Python'']
     [''SQL'', ''Machine Learning'', ''Docker'', ''Git'', ''Excel'', ''Tableau'', ''Jira''] =
   [(''Programming Languages'',
     [''Python'', ''Python'', ''SQL'', ''Machine Learning'', ''Docker'', ''Jira'']),
    (''Data Analysis'', [''Excel'', ''Tableau'']),
    (''Other'', [''Git''])]"
  by code_simp

lemma example_required:
  "required_skills example_analyzer ''Dev'' =
     [''Python'', ''SQL'', ''Python'', ''Machine Learning'', ''Docker'', ''Git'', ''Excel'',
      ''Tableau'', ''Jira'']"
  by (simp add: required_skills_def get_job_required_skills_def example_fields example_mapping_Dev)

lemma example_reqs:
  "get_job_required_skills example_analyzer ''Dev'' =
     the (create_job_skill_mapping example_rows ''Dev'')"
  by (simp add: get_job_required_skills_def example_fields example_mapping_Dev)

lemma example_tiers:
  "classify_missing [''Python'', ''Python'', ''Machine Learning'', ''Docker'']
     [''Python'', ''SQL'', ''Python'', ''Machine Learning'']
     [''SQL'', ''Machine Learning'', ''Docker'', ''Git'', ''Excel'', ''Tableau'', ''Jira''] [] [] [] =
   ([''Machine Learning''], [''SQL'', ''Docker''], [''Git'', ''Excel'', ''Tableau'', ''Jira''])"
  by (simp add: classify_missing_filter)

lemma example_analysis:
  "analyze_skill_gap example_library example_analyzer [''python'', ''pyhton'', ''cobol''] ''Dev'' =
     Inr example_result"
  apply (simp only: analyze_skill_gap_def example_matches sum.case Let_def example_required
      example_reqs example_mapping_Dev option.sel)
  apply (simp add: example_tiers generate_recommendations_def example_path example_areas
      example_result_def)
  done

subsection \<open>Scores of exact matches, and the example's scores\<close>

lemma example_scores:
  "semantic_score example_library example_analyzer ''python'' = 1"
  "lexical_score example_library example_analyzer ''python'' = 1"
  "semantic_score example_library example_analyzer ''pyhton'' = 0"
  "lexical_score example_library example_analyzer ''pyhton'' = 83 / 100"
  "semantic_score example_library example_analyzer ''cobol'' = 0"
  "lexical_score example_library example_analyzer ''cobol'' = 0"
  by (simp_all add: semantic_score_def lexical_score_def example_library_def example_analyzer_def
        example_encode_def lower_examples)

lemma lexical_score_exact:
  assumes ne: "v \<in> set (skill_list self)" and eq: "lower c = lower v"
    and r: "fuzz_ratio L (lower c) (lower c) = 100"
  shows "1 \<le> lexical_score L self c"
proof -
  let ?S = "set (map (\<lambda>skill. real_of_int (fuzz_ratio L (lower c) (lower skill)) / 100)
                 (skill_list self))"
  have "real_of_int (fuzz_ratio L (lower c) (lower v)) / 100 \<in> ?S"
    using ne by auto
  then have "1 \<in> ?S" using eq r by simp
  then have "1 \<le> Max ?S" by (intro Max_ge) auto
  then show ?thesis by (simp add: lexical_score_def)
qed

lemma scores_le_1:
  assumes ok: "vocabulary_ok self"
    and c: "\<forall>e\<in>set (skill_embeddings self). cosine_similarity L (sbert_model self c) e \<le> 1"
    and f: "\<forall>s\<in>set (skill_list self). fuzz_ratio L (lower c) (lower s) \<le> 100"
  shows "semantic_score L self c \<le> 1" and "lexical_score L self c \<le> 1"
proof -
  from ok have ne: "skill_list self \<noteq> []" "skill_embeddings self \<noteq> []"
    by (auto simp: vocabulary_ok_def)
  show "semantic_score L self c \<le> 1"
    unfolding semantic_score_def using ne c by (subst Max_le_iff) auto
  have "real_of_int (fuzz_ratio L (lower c) (lower s)) \<le> 100" if "s \<in> set (skill_list self)" for s
    using f that by (metis of_int_le_iff of_int_numeral)
  then show "lexical_score L self c \<le> 1"
    unfolding lexical_score_def using ne by (subst Max_le_iff) auto
qed

lemma example_init:
  "init (Inr \<lparr>ed_skills = Some [''Python'', ''SQL'', ''Machine Learning''],
              ed_embeddings = Some [[1, 0, 0], [0, 1, 0], [0, 0, 1]]\<rparr>)
        (Inr (create_job_skill_mapping example_rows)) example_encode None =
   Inr example_analyzer"
  by (simp add: init_def load_skill_data_def np_array_def example_analyzer_def)


subsection \<open>The learning path\<close>

lemma group_skills_lookup:
  "group_skills xs m cat =
     (if filter (\<lambda>s. learning_category s = cat) xs = [] then m cat
      else Some ((case m cat of None \<Rightarrow> [] | Some ss \<Rightarrow> ss) @
                 filter (\<lambda>s. learning_category s = cat) xs))"
  by (induction xs arbitrary: m) (auto simp: Let_def)

lemma create_learning_path_grouped:
  "create_learning_path xs =
     concat (map (\<lambda>cat. map (path_item cat) (filter (\<lambda>s. learning_category s = cat) xs))
               learning_order)"
proof -
  have "(case group_skills xs Map.empty cat of None \<Rightarrow> [] | Some ss \<Rightarrow> map (path_item cat) ss) =
        map (path_item cat) (filter (\<lambda>s. learning_category s = cat) xs)" for cat
    by (simp add: group_skills_lookup)
  then show ?thesis by (simp add: create_learning_path_def)
qed

lemma first_category_range:
  "first_category table s \<in> insert ''other'' (fst ` set table)"
  by (induction table s rule: first_category.induct) auto

lemma learning_category_in_order: "learning_category s \<in> set learning_order"
proof -
  have "insert ''other'' (fst ` set skill_categories_table) \<subseteq> set learning_order"
    by (simp add: skill_categories_table_def learning_order_def)
  with first_category_range[of skill_categories_table s] show ?thesis
    unfolding learning_category_def by blast
qed

lemma mset_concat_partition:
  "distinct cs \<Longrightarrow> \<forall>s\<in>set xs. f s \<in> set cs \<Longrightarrow>
   mset (concat (map (\<lambda>c. filter (\<lambda>s. f s = c) xs) cs)) = mset xs"
proof (induction cs arbitrary: xs)
  case Nil
  then show ?case by (cases xs) auto
next
  case (Cons c cs)
  let ?ys = "filter (\<lambda>s. f s \<noteq> c) xs"
  have same: "map (\<lambda>c'. filter (\<lambda>s. f s = c') xs) cs = map (\<lambda>c'. filter (\<lambda>s. f s = c') ?ys) cs"
    using Cons.prems(1) by (auto intro!: filter_cong)
  have "mset (concat (map (\<lambda>c'. filter (\<lambda>s. f s = c') ?ys) cs)) = mset ?ys"
    using Cons.prems by (intro Cons.IH) auto
  then have "mset (concat (map (\<lambda>c'. filter (\<lambda>s. f s = c') xs) (c # cs))) =
        mset (filter (\<lambda>s. f s = c) xs) + mset ?ys"
    by (simp add: same)
  also have "\<dots> = mset xs" by (induction xs) auto
  finally show ?case .
qed

lemma lp_skill_path_item: "lp_skill (path_item cat s) = s"
  by (simp add: path_item_def)

lemma learning_path_skills:
  "mset (map lp_skill (create_learning_path xs)) = mset xs"
proof -
  have "map lp_skill (create_learning_path xs) =
        concat (map (\<lambda>cat. filter (\<lambda>s. learning_category s = cat) xs) learning_order)"
    by (simp add: create_learning_path_grouped map_concat comp_def lp_skill_path_item)
  moreover have "distinct learning_order" by (simp add: learning_order_def)
  ultimately show ?thesis
    using mset_concat_partition[of learning_order xs learning_category]
      learning_category_in_order by simp
qed

subsection \<open>The importance lists and the job table\<close>

lemma tiers_of_result:
  assumes "analyze_skill_gap L self rs job = Inr r"
  shows "critical_missing r =
           filter (\<lambda>s. s \<in> set (hot_technologies (get_job_required_skills self job)) \<and>
                        s \<in> set (in_demand_skills (get_job_required_skills self job)))
             (missing_skills r)"
    and "important_missing r =
           filter (\<lambda>s. (s \<in> set (hot_technologies (get_job_required_skills self job))) \<noteq>
                        (s \<in> set (in_demand_skills (get_job_required_skills self job))))
             (missing_skills r)"
    and "nice_to_have_missing r =
           filter (\<lambda>s. s \<notin> set (hot_technologies (get_job_required_skills self job)) \<and>
                        s \<notin> set (in_demand_skills (get_job_required_skills self job)))
             (missing_skills r)"
proof -
  show "critical_missing r =
           filter (\<lambda>s. s \<in> set (hot_technologies (get_job_required_skills self job)) \<and>
                        s \<in> set (in_demand_skills (get_job_required_skills self job)))
             (missing_skills r)"
    by (simp add: analyze_fields(7)[OF assms] classify_missing_filter)
  show "nice_to_have_missing r =
           filter (\<lambda>s. s \<notin> set (hot_technologies (get_job_required_skills self job)) \<and>
                        s \<notin> set (in_demand_skills (get_job_required_skills self job)))
             (missing_skills r)"
    by (simp add: analyze_fields(9)[OF assms] classify_missing_filter)
  have "important_missing r =
     filter (\<lambda>s. \<not> (s \<in> set (hot_technologies (get_job_required_skills self job)) \<and>
                        s \<in> set (in_demand_skills (get_job_required_skills self job))) \<and>
                  (s \<in> set (hot_technologies (get_job_required_skills self job)) \<or>
                        s \<in> set (in_demand_skills (get_job_required_skills self job))))
             (missing_skills r)"
    by (simp add: analyze_fields(8)[OF assms] classify_missing_filter)
  also have "\<dots> = filter (\<lambda>s. (s \<in> set (hot_technologies (get_job_required_skills self job))) \<noteq>
                        (s \<in> set (in_demand_skills (get_job_required_skills self job))))
             (missing_skills r)"
    by (rule filter_cong) auto
  finally show "important_missing r =
           filter (\<lambda>s. (s \<in> set (hot_technologies (get_job_required_skills self job))) \<noteq>
                        (s \<in> set (in_demand_skills (get_job_required_skills self job))))
             (missing_skills r)" .
qed

lemma mset_three_filters:
  "mset (filter (\<lambda>s. P s \<and> Q s) xs) + mset (filter (\<lambda>s. P s \<noteq> Q s) xs) +
   mset (filter (\<lambda>s. \<not> P s \<and> \<not> Q s) xs) = mset xs"
  by (induction xs) auto

lemma job_consistent_flags:
  assumes "job_consistent reqs"
  shows "s \<in> set (hot_technologies reqs) \<longleftrightarrow> hot_flag reqs s"
    and "s \<in> set (in_demand_skills reqs) \<longleftrightarrow> demand_flag reqs s"
  using assms by (auto simp: job_consistent_def hot_flag_def demand_flag_def list_ex_iff)

lemma add_row_consistent:
  assumes inv: "\<And>j reqs. m j = Some reqs \<Longrightarrow> job_consistent reqs"
    and look: "add_row row m j = Some reqs"
  shows "job_consistent reqs"
proof (cases "j = r_job row")
  case False
  with look have "m j = Some reqs" by (simp add: add_row_def Let_def)
  then show ?thesis by (rule inv)
next
  case True
  show ?thesis
  proof (cases "m (r_job row)")
    case None
    with look True show ?thesis
      by (auto simp: add_row_def Let_def job_consistent_def)
  next
    case (Some e)
    then have "job_consistent e" by (rule inv)
    with look True Some show ?thesis
      by (auto simp: add_row_def Let_def job_consistent_def)
  qed
qed

lemma fold_add_row_consistent:
  "(\<And>j reqs. m j = Some reqs \<Longrightarrow> job_consistent reqs) \<Longrightarrow>
   fold add_row rows m j = Some reqs \<Longrightarrow> job_consistent reqs"
proof (induction rows arbitrary: m)
  case Nil
  then show ?case by simp
next
  case (Cons row rows)
  show ?case
  proof (rule Cons.IH[of "add_row row m"])
    fix j' reqs' assume "add_row row m j' = Some reqs'"
    then show "job_consistent reqs'" using Cons.prems(1) add_row_consistent by blast
  next
    show "fold add_row rows (add_row row m) j = Some reqs" using Cons.prems(2) by simp
  qed
qed

lemma create_job_skill_mapping_consistent:
  "create_job_skill_mapping rows job = Some reqs \<Longrightarrow> job_consistent reqs"
  unfolding create_job_skill_mapping_def by (rule fold_add_row_consistent[of Map.empty]) auto

lemma built_table_consistent:
  assumes "job_skill_mapping self = create_job_skill_mapping rows"
  shows "job_consistent (get_job_required_skills self job)"
proof (cases "job_skill_mapping self job")
  case None
  then show ?thesis by (simp add: get_job_required_skills_def job_consistent_def)
next
  case (Some reqs)
  with assms have "job_consistent reqs" by (simp add: create_job_skill_mapping_consistent)
  with Some show ?thesis by (simp add: get_job_required_skills_def)
qed

section \<open>The claims\<close>

text \<open>
  C3. For every job and every list of candidate skills, the present skills and the missing
  skills of the analysis result have no name in common, and together they are exactly the
  names of the job's required-skill list with duplicates removed.
\<close>

theorem present_missing_partition:
  assumes "analyze_skill_gap L self resume_skills job = Inr r"
  shows "set (present_skills r) \<inter> set (missing_skills r) = {} \<and>
         set (present_skills r) \<union> set (missing_skills r) =
           set (remdups (required_skills self job))"
  unfolding analyze_fields(2,3)[OF assms] by auto

theorem present_missing_partition_witness:
  "analyze_skill_gap example_library example_analyzer [''python'', ''pyhton'', ''cobol''] ''Dev'' =
     Inr example_result \<and>
   set (present_skills example_result) \<inter> set (missing_skills example_result) = {} \<and>
   set (present_skills example_result) \<union> set (missing_skills example_result) =
     set (remdups (required_skills example_analyzer ''Dev''))"
  using present_missing_partition[OF example_analysis] example_analysis by simp

text \<open>
  C10. The required-skill list is scored as it is stored, duplicates included, and the
  proficiency score still lies between 0 and 100: the present skills are selected from the
  required list, so there are at most as many of them.
\<close>

theorem proficiency_score_bounds:
  assumes "analyze_skill_gap L self resume_skills job = Inr r"
  shows "0 \<le> proficiency_score r \<and> proficiency_score r \<le> 100 \<and>
         length (present_skills r) \<le> length (required_skills self job) \<and>
         total_required_skills r = length (skills (get_job_required_skills self job))"
proof -
  let ?req = "required_skills self job"
  note p = analyze_fields(2)[OF assms] and s = analyze_fields(6)[OF assms]
    and t = analyze_fields(4)[OF assms]
  have le: "length (present_skills r) \<le> length ?req"
    unfolding p by simp
  have pos: "0 < real (max (length ?req) 1)" by simp
  have le': "real (length (present_skills r)) \<le> real (max (length ?req) 1)"
    using le by simp
  have nn: "0 \<le> real (length (present_skills r))" by simp
  have "total_required_skills r = length (skills (get_job_required_skills self job))"
    using t by (simp add: required_skills_def)
  then show ?thesis
    using percent_bounds[OF nn le' pos] le unfolding s by simp
qed

theorem proficiency_score_bounds_witness:
  "analyze_skill_gap example_library example_analyzer [''python'', ''pyhton'', ''cobol''] ''Dev'' =
     Inr example_result \<and>
   \<not> distinct (required_skills example_analyzer ''Dev'') \<and>
   0 \<le> proficiency_score example_result \<and> proficiency_score example_result \<le> 100 \<and>
   length (present_skills example_result) \<le> length (required_skills example_analyzer ''Dev'')"
  using proficiency_score_bounds[OF example_analysis] example_analysis
  by (simp add: example_required)

text \<open>
  C1. On a loaded, non-empty vocabulary the matcher returns, and for every candidate it
  compares the best semantic score with the best lexical score: the emitted match carries
  the greater of the two as confidence, the method that gave it as match type (semantic on
  a tie) and a vocabulary name attaining it, and a match is emitted for a candidate exactly
  when that score reaches \<open>similarity_threshold\<close>; the other candidates leave no entry.
  The output lists the accepted candidates in input order. An analyzer constructed without
  a threshold has the threshold 0.7.
\<close>

theorem match_selection_rule:
  assumes "vocabulary_ok self"
  shows "(\<exists>ms. extract_and_match_skills L self resume_skills = Inr ms \<and>
           map original_skill ms =
             filter (\<lambda>c. similarity_threshold self \<le>
                          max (semantic_score L self c) (lexical_score L self c)) resume_skills \<and>
           (\<forall>m\<in>set ms. similarity_threshold self \<le> confidence m \<and> emitted_ok L self m)) \<and>
         (\<forall>ef mf model a. init ef mf model None = Inr a \<longrightarrow> similarity_threshold a = 7 / 10)"
  using extract_and_match_spec[OF assms, of L resume_skills] init_default_threshold by blast

theorem match_selection_rule_witness:
  "vocabulary_ok example_analyzer \<and>
   extract_and_match_skills example_library example_analyzer [''python'', ''pyhton'', ''cobol''] =
     Inr (matched_skills example_result) \<and>
   map original_skill (matched_skills example_result) = [''python'', ''pyhton''] \<and>
   filter (\<lambda>c. similarity_threshold example_analyzer \<le>
                max (semantic_score example_library example_analyzer c)
                    (lexical_score example_library example_analyzer c))
      [''python'', ''pyhton'', ''cobol''] = [''python'', ''pyhton''] \<and>
   list_all (emitted_ok example_library example_analyzer) (matched_skills example_result) \<and>
   init (Inr \<lparr>ed_skills = Some [''Python'', ''SQL'', ''Machine Learning''],
              ed_embeddings = Some [[1, 0, 0], [0, 1, 0], [0, 0, 1]]\<rparr>)
        (Inr (create_job_skill_mapping example_rows)) example_encode None =
     Inr example_analyzer \<and>
   similarity_threshold example_analyzer = 7 / 10"
  using match_selection_rule[OF example_vocabulary_ok, of example_library
      "[''python'', ''pyhton'', ''cobol'']"] example_vocabulary_ok example_init
  by (auto simp: example_matches example_result_def example_scores example_fields)

text \<open>
  C2, as the code has it. The score is 100 times the number of present skills over the
  number of required skills (at least 1), where the required skills are the names of the
  job's entries as stored, one per entry: duplicates are kept and counted, and the present
  skills are the entries of that list whose name was matched.
\<close>

theorem proficiency_score_formula:
  assumes "analyze_skill_gap L self resume_skills job = Inr r"
  shows "proficiency_score r =
           100 * real (length (present_skills r)) / real (max (length (required_skills self job)) 1) \<and>
         total_required_skills r = length (required_skills self job) \<and>
         required_skills self job = map si_skill (skills (get_job_required_skills self job)) \<and>
         present_skills r =
           filter (\<lambda>s. s \<in> matched_skill ` set (matched_skills r)) (required_skills self job)"
  using analyze_fields(2,4,6)[OF assms] by (simp add: required_skills_def)

theorem proficiency_score_formula_witness:
  "analyze_skill_gap example_library example_analyzer [''python'', ''pyhton'', ''cobol''] ''Dev'' =
     Inr example_result \<and>
   proficiency_score example_result =
     100 * real (length (present_skills example_result)) /
       real (max (length (required_skills example_analyzer ''Dev'')) 1) \<and>
   total_required_skills example_result = length (required_skills example_analyzer ''Dev'') \<and>
   proficiency_score example_result = 200 / 9 \<and>
   length (required_skills example_analyzer ''Dev'') = 9"
proof -
  have "proficiency_score example_result = 200 / 9"
    by (simp add: example_result_def)
  moreover have "length (required_skills example_analyzer ''Dev'') = 9"
    by (simp add: example_required)
  ultimately show ?thesis
    using proficiency_score_formula[OF example_analysis] example_analysis by blast
qed

text \<open>
  The claim with deduplication fails on the example: \<open>Python\<close> is stored twice, nine
  entries are counted where eight names are distinct, and the score is 200/9, not the
  100/8 of the deduplicated lists.
\<close>

theorem proficiency_score_dedup_counterexample:
  "analyze_skill_gap example_library example_analyzer [''python'', ''pyhton'', ''cobol''] ''Dev'' =
     Inr example_result \<and>
   job_skill_mapping example_analyzer ''Dev'' \<noteq> None \<and>
   total_required_skills example_result \<noteq> length (remdups (required_skills example_analyzer ''Dev'')) \<and>
   proficiency_score example_result \<noteq>
     100 * real (length (remdups (present_skills example_result))) /
       real (max (length (remdups (required_skills example_analyzer ''Dev''))) 1)"
  by (simp add: example_analysis example_fields example_mapping_Dev example_required)
     (simp add: example_result_def)

text \<open>
  C5, as the code has it. Loading never compares the number of skill names with the number
  of embeddings: when both files are read, both keys are present and the embedding rows
  have one length, loading succeeds and stores the two lists as given.
\<close>

theorem load_skill_data_no_length_check:
  assumes "list_all (\<lambda>row. length row = length (hd rows)) rows"
  shows "load_skill_data self (Inr \<lparr>ed_skills = Some names, ed_embeddings = Some rows\<rparr>)
           (Inr mapping) =
         Inr (self\<lparr>skill_list := names, skill_embeddings := rows, job_skill_mapping := mapping\<rparr>)"
  using assms by (simp add: load_skill_data_def np_array_def)

theorem load_skill_data_no_length_check_witness:
  "list_all (\<lambda>row. length row = length (hd [[1, 0, 0 :: real]])) [[1, 0, 0]] \<and>
   length [''Python'', ''SQL''] \<noteq> length [[1, 0, 0 :: real]] \<and>
   load_skill_data example_analyzer
     (Inr \<lparr>ed_skills = Some [''Python'', ''SQL''], ed_embeddings = Some [[1, 0, 0]]\<rparr>)
     (Inr (job_skill_mapping example_analyzer)) =
   Inr (example_analyzer\<lparr>skill_list := [''Python'', ''SQL''], skill_embeddings := [[1, 0, 0]],
          job_skill_mapping := job_skill_mapping example_analyzer\<rparr>)"
proof -
  have h: "list_all (\<lambda>row. length row = length (hd [[1, 0, 0 :: real]])) [[1, 0, 0]]" by simp
  from load_skill_data_no_length_check[OF h] h show ?thesis by simp
qed

text \<open>
  Two skill names with one embedding: loading succeeds.
\<close>

theorem load_mismatch_counterexample:
  "length [''Python'', ''SQL''] \<noteq> length [[1, 0, 0 :: real]] \<and>
   \<not> isl (load_skill_data example_analyzer
     (Inr \<lparr>ed_skills = Some [''Python'', ''SQL''], ed_embeddings = Some [[1, 0, 0]]\<rparr>)
     (Inr (job_skill_mapping example_analyzer)))"
  by (simp add: load_skill_data_def np_array_def)




text \<open>
  C8. A candidate that equals a vocabulary name up to case is never rejected when the
  threshold is at most 1: the ratio of a string with itself is 100, so the lexical score
  is at least 1, a match for the candidate is emitted and its confidence is at least 1
  (exactly 1 when the library's scores are bounded by 1 and 100).
\<close>

theorem exact_match_accepted:
  assumes ok: "vocabulary_ok self"
    and c: "c \<in> set resume_skills"
    and v: "v \<in> set (skill_list self)"
    and eq: "lower c = lower v"
    and r: "fuzz_ratio L (lower c) (lower c) = 100"
    and thr: "similarity_threshold self \<le> 1"
  shows "\<exists>ms. extract_and_match_skills L self resume_skills = Inr ms \<and>
           (\<exists>m\<in>set ms. original_skill m = c \<and> 1 \<le> confidence m \<and>
              matched_skill m \<in> set (skill_list self) \<and>
              ((\<forall>e\<in>set (skill_embeddings self).
                   cosine_similarity L (sbert_model self c) e \<le> 1) \<and>
               (\<forall>s\<in>set (skill_list self). fuzz_ratio L (lower c) (lower s) \<le> 100)
                 \<longrightarrow> confidence m = 1))"
proof -
  let ?win = "\<lambda>c. max (semantic_score L self c) (lexical_score L self c)"
  from extract_and_match_spec[OF ok, of L resume_skills] obtain ms where
    ex: "extract_and_match_skills L self resume_skills = Inr ms" and
    em: "map original_skill ms = filter (\<lambda>c. similarity_threshold self \<le> ?win c) resume_skills" and
    all: "\<forall>m\<in>set ms. similarity_threshold self \<le> confidence m \<and> emitted_ok L self m"
    by blast
  have lex: "1 \<le> lexical_score L self c" by (rule lexical_score_exact[OF v eq r])
  then have win: "1 \<le> ?win c" by simp
  with thr have "similarity_threshold self \<le> ?win c" by linarith
  with c have "c \<in> set (filter (\<lambda>c. similarity_threshold self \<le> ?win c) resume_skills)" by simp
  then have "c \<in> set (map original_skill ms)" by (simp only: em)
  then obtain m where m: "m \<in> set ms" "original_skill m = c" by auto
  with all have e: "emitted_ok L self m" by blast
  then have conf: "confidence m = ?win c" using m by (simp add: emitted_ok_def)
  from e have mem: "matched_skill m \<in> set (skill_list self)"
    by (auto simp: emitted_ok_def)
  have "confidence m = 1"
    if "(\<forall>e\<in>set (skill_embeddings self). cosine_similarity L (sbert_model self c) e \<le> 1) \<and>
        (\<forall>s\<in>set (skill_list self). fuzz_ratio L (lower c) (lower s) \<le> 100)"
    using scores_le_1[OF ok, of L c] that win conf by auto
  with ex m conf win mem show ?thesis by auto
qed

theorem exact_match_accepted_witness:
  "vocabulary_ok example_analyzer \<and> ''python'' \<in> set [''python'', ''pyhton'', ''cobol''] \<and>
   ''Python'' \<in> set (skill_list example_analyzer) \<and> lower ''python'' = lower ''Python'' \<and>
   fuzz_ratio example_library (lower ''python'') (lower ''python'') = 100 \<and>
   similarity_threshold example_analyzer \<le> 1 \<and>
   list_all (\<lambda>e. cosine_similarity example_library (sbert_model example_analyzer ''python'') e \<le> 1)
     (skill_embeddings example_analyzer) \<and>
   list_all (\<lambda>s. fuzz_ratio example_library (lower ''python'') (lower s) \<le> 100)
     (skill_list example_analyzer) \<and>
   (\<exists>ms. extract_and_match_skills example_library example_analyzer
            [''python'', ''pyhton'', ''cobol''] = Inr ms \<and>
         (\<exists>m\<in>set ms. original_skill m = ''python'' \<and> confidence m = 1))"
proof -
  have h: "''python'' \<in> set [''python'', ''pyhton'', ''cobol'']"
    "''Python'' \<in> set (skill_list example_analyzer)" "lower ''python'' = lower ''Python''"
    "fuzz_ratio example_library (lower ''python'') (lower ''python'') = 100"
    "similarity_threshold example_analyzer \<le> 1"
    by (simp_all add: example_fields lower_examples example_library_def)
  have b1: "\<forall>e\<in>set (skill_embeddings example_analyzer).
      cosine_similarity example_library (sbert_model example_analyzer ''python'') e \<le> 1"
    by (simp add: example_fields example_library_def example_analyzer_def example_encode_def
          lower_examples)
  have b2: "\<forall>s\<in>set (skill_list example_analyzer).
      fuzz_ratio example_library (lower ''python'') (lower s) \<le> 100"
    by (simp add: example_fields example_library_def lower_examples)
  from exact_match_accepted[OF example_vocabulary_ok h] b1 b2
  have "\<exists>ms. extract_and_match_skills example_library example_analyzer
            [''python'', ''pyhton'', ''cobol''] = Inr ms \<and>
         (\<exists>m\<in>set ms. original_skill m = ''python'' \<and> confidence m = 1)"
    by blast
  with h b1 b2 example_vocabulary_ok show ?thesis
    by (simp only: list_all_iff)
qed

text \<open>
  C4. Every entry of the missing list goes to exactly one of the three importance lists,
  so the lists are pairwise disjoint and together hold the missing skills. The code sorts
  by membership of the name in the job's lists \<open>hot_technologies\<close> and
  \<open>in_demand_skills\<close>; for a job whose lists agree with the flags of its entries, as in
  every table that \<open>create_job_skill_mapping\<close> builds, a missing skill is critical when
  it is flagged hot and in demand, important when it has exactly one of the flags, and
  nice-to-have when it has neither.
\<close>

theorem importance_tiers:
  assumes res: "analyze_skill_gap L self resume_skills job = Inr r"
    and cons: "job_consistent (get_job_required_skills self job)"
  shows "mset (critical_missing r) + mset (important_missing r) + mset (nice_to_have_missing r) =
           mset (missing_skills r) \<and>
         set (critical_missing r) \<inter> set (important_missing r) = {} \<and>
         set (critical_missing r) \<inter> set (nice_to_have_missing r) = {} \<and>
         set (important_missing r) \<inter> set (nice_to_have_missing r) = {} \<and>
         set (critical_missing r) \<union> set (important_missing r) \<union> set (nice_to_have_missing r) =
           set (missing_skills r) \<and>
         (\<forall>s\<in>set (missing_skills r).
            (s \<in> set (critical_missing r) \<longleftrightarrow>
               hot_flag (get_job_required_skills self job) s \<and>
               demand_flag (get_job_required_skills self job) s) \<and>
            (s \<in> set (important_missing r) \<longleftrightarrow>
               hot_flag (get_job_required_skills self job) s \<noteq>
               demand_flag (get_job_required_skills self job) s) \<and>
            (s \<in> set (nice_to_have_missing r) \<longleftrightarrow>
               \<not> hot_flag (get_job_required_skills self job) s \<and>
               \<not> demand_flag (get_job_required_skills self job) s))"
proof -
  note t = tiers_of_result[OF res]
  note f = job_consistent_flags[OF cons]
  have m: "mset (critical_missing r) + mset (important_missing r) + mset (nice_to_have_missing r) =
           mset (missing_skills r)"
    unfolding t by (rule mset_three_filters)
  let ?H = "\<lambda>s. s \<in> set (hot_technologies (get_job_required_skills self job))"
  let ?D = "\<lambda>s. s \<in> set (in_demand_skills (get_job_required_skills self job))"
  have sc: "set (critical_missing r) = {s \<in> set (missing_skills r). ?H s \<and> ?D s}"
    by (simp add: t(1))
  have si: "set (important_missing r) = {s \<in> set (missing_skills r). ?H s \<noteq> ?D s}"
    by (simp add: t(2))
  have sn: "set (nice_to_have_missing r) = {s \<in> set (missing_skills r). \<not> ?H s \<and> \<not> ?D s}"
    by (simp add: t(3))
  have d: "set (critical_missing r) \<inter> set (important_missing r) = {}"
      "set (critical_missing r) \<inter> set (nice_to_have_missing r) = {}"
      "set (important_missing r) \<inter> set (nice_to_have_missing r) = {}"
    unfolding sc si sn by auto
  have u: "set (critical_missing r) \<union> set (important_missing r) \<union> set (nice_to_have_missing r) =
           set (missing_skills r)"
    unfolding sc si sn by auto
  have c: "s \<in> set (critical_missing r) \<longleftrightarrow>
               hot_flag (get_job_required_skills self job) s \<and>
               demand_flag (get_job_required_skills self job) s"
    if "s \<in> set (missing_skills r)" for s
    using that unfolding sc si sn by (simp add: f)
  have i: "s \<in> set (important_missing r) \<longleftrightarrow>
               hot_flag (get_job_required_skills self job) s \<noteq>
               demand_flag (get_job_required_skills self job) s"
    if "s \<in> set (missing_skills r)" for s
    using that unfolding sc si sn by (simp add: f)
  have n: "s \<in> set (nice_to_have_missing r) \<longleftrightarrow>
               \<not> hot_flag (get_job_required_skills self job) s \<and>
               \<not> demand_flag (get_job_required_skills self job) s"
    if "s \<in> set (missing_skills r)" for s
    using that unfolding sc si sn by (simp add: f)
  from m d u c i n show ?thesis by blast
qed

theorem importance_tiers_witness:
  "analyze_skill_gap example_library example_analyzer [''python'', ''pyhton'', ''cobol''] ''Dev'' =
     Inr example_result \<and>
   job_consistent (get_job_required_skills example_analyzer ''Dev'') \<and>
   mset (critical_missing example_result) + mset (important_missing example_result) +
     mset (nice_to_have_missing example_result) = mset (missing_skills example_result) \<and>
   set (critical_missing example_result) \<union> set (important_missing example_result) \<union>
     set (nice_to_have_missing example_result) = set (missing_skills example_result) \<and>
   ''Machine Learning'' \<in> set (critical_missing example_result) \<and>
   hot_flag (get_job_required_skills example_analyzer ''Dev'') ''Machine Learning'' \<and>
   demand_flag (get_job_required_skills example_analyzer ''Dev'') ''Machine Learning'' \<and>
   ''Docker'' \<in> set (important_missing example_result) \<and>
   hot_flag (get_job_required_skills example_analyzer ''Dev'') ''Docker'' \<noteq>
     demand_flag (get_job_required_skills example_analyzer ''Dev'') ''Docker'' \<and>
   ''Git'' \<in> set (nice_to_have_missing example_result) \<and>
   \<not> hot_flag (get_job_required_skills example_analyzer ''Dev'') ''Git'' \<and>
   \<not> demand_flag (get_job_required_skills example_analyzer ''Dev'') ''Git''"
proof -
  have c: "job_consistent (get_job_required_skills example_analyzer ''Dev'')"
    by (rule built_table_consistent) (rule example_fields(1))
  have ml: "''Machine Learning'' \<in> set (missing_skills example_result)"
    "''Machine Learning'' \<in> set (critical_missing example_result)"
    "''Docker'' \<in> set (missing_skills example_result)"
    "''Docker'' \<in> set (important_missing example_result)"
    "''Git'' \<in> set (missing_skills example_result)"
    "''Git'' \<in> set (nice_to_have_missing example_result)"
    by (simp_all add: example_result_def)
  from importance_tiers[OF example_analysis c] c ml example_analysis
  show ?thesis by blast
qed

text \<open>
  C7. The path is emitted by category in the fixed order, each category in input order
  (\<open>create_learning_path_grouped\<close>). But on the skills Docker, Python and SQL the code
  does not put Docker last: the keyword \<open>R\<close> of the category programming, lowered, occurs
  in \<open>docker\<close>, so Docker is a programming skill and comes before SQL, and before Python
  when it stands before it in the input.
\<close>

theorem docker_python_sql_path:
  "map lp_skill (create_learning_path [''Docker'', ''Python'', ''SQL'']) =
     [''Docker'', ''Python'', ''SQL''] \<and>
   map lp_category (create_learning_path [''Docker'', ''Python'', ''SQL'']) =
     [''programming'', ''programming'', ''database''] \<and>
   map lp_skill (create_learning_path [''SQL'', ''Python'', ''Docker'']) =
     [''Python'', ''Docker'', ''SQL''] \<and>
   str_in (lower ''R'') (lower ''Docker'')"
  by code_simp

text \<open>
  C9. The learning path of the recommendations is built from the critical list, then the
  important list, then the first three entries of the nice-to-have list, and holds one item
  for each of these entries and no other. A nice-to-have skill past the third entry (and
  not among the first three) is in no item of the path, although it is a missing skill.
\<close>

theorem learning_path_sources:
  assumes "analyze_skill_gap L self resume_skills job = Inr r"
  shows "learning_path (recommended r) =
           create_learning_path
             (critical_missing r @ important_missing r @ take 3 (nice_to_have_missing r)) \<and>
         mset (map lp_skill (learning_path (recommended r))) =
           mset (critical_missing r @ important_missing r @ take 3 (nice_to_have_missing r)) \<and>
         (\<forall>s\<in>set (drop 3 (nice_to_have_missing r)).
            s \<in> set (missing_skills r) \<and>
            (s \<notin> set (take 3 (nice_to_have_missing r)) \<longrightarrow>
               s \<notin> lp_skill ` set (learning_path (recommended r))))"
proof -
  let ?all = "critical_missing r @ important_missing r @ take 3 (nice_to_have_missing r)"
  have lp: "learning_path (recommended r) = create_learning_path ?all"
    by (simp add: analyze_fields(10)[OF assms] generate_recommendations_def)
  have ms: "mset (map lp_skill (learning_path (recommended r))) = mset ?all"
    unfolding lp by (rule learning_path_skills)
  then have st: "lp_skill ` set (learning_path (recommended r)) = set ?all"
    by (metis mset_eq_setD set_map)
  note t = tiers_of_result[OF assms]
  have "s \<in> set (missing_skills r) \<and>
        (s \<notin> set (take 3 (nice_to_have_missing r)) \<longrightarrow>
           s \<notin> lp_skill ` set (learning_path (recommended r)))"
    if "s \<in> set (drop 3 (nice_to_have_missing r))" for s
  proof -
    from that have n: "s \<in> set (nice_to_have_missing r)" by (rule in_set_dropD)
    then have "s \<in> set (missing_skills r)" "s \<notin> set (critical_missing r)"
      "s \<notin> set (important_missing r)"
      by (subst (asm) t(3), simp add: t(1) t(2))+
    then show ?thesis unfolding st by auto
  qed
  with lp ms show ?thesis by blast
qed

theorem learning_path_sources_witness:
  "analyze_skill_gap example_library example_analyzer [''python'', ''pyhton'', ''cobol''] ''Dev'' =
     Inr example_result \<and>
   ''Jira'' \<in> set (drop 3 (nice_to_have_missing example_result)) \<and>
   ''Jira'' \<notin> set (take 3 (nice_to_have_missing example_result)) \<and>
   ''Jira'' \<in> set (missing_skills example_result) \<and>
   ''Jira'' \<notin> lp_skill ` set (learning_path (recommended example_result)) \<and>
   mset (map lp_skill (learning_path (recommended example_result))) =
     mset (critical_missing example_result @ important_missing example_result @
           take 3 (nice_to_have_missing example_result))"
proof -
  have d: "''Jira'' \<in> set (drop 3 (nice_to_have_missing example_result))"
    and t: "''Jira'' \<notin> set (take 3 (nice_to_have_missing example_result))"
    by (simp_all add: example_result_def)
  from learning_path_sources[OF example_analysis] d t example_analysis
  show ?thesis by blast
qed

end
